theory Spec2Isabelle
  imports Complex_Main "HOL-Library.Multiset"
begin

section \<open>Floating-point columns\<close>

text \<open>
  The engine works on pandas columns of 64-bit floats. A float is modelled as a real
  number or NaN: \<open>None\<close> is NaN, \<open>Some x\<close> is the finite value \<open>x\<close>.
  Rounding error, overflow and the infinities are not represented, so no statement
  below fixes an exact numeric threshold that rounding error could move. The only place
  where the program could produce an infinity is a division by zero; the model
  returns NaN there, and every statement below that depends on a quotient carries
  the hypothesis that makes the divisor non-zero (prices are strictly positive, the
  equity curve stays positive).

  Comparisons follow IEEE: every ordered comparison with NaN is false and
  \<open>NaN != x\<close> is true. Arithmetic propagates NaN.
\<close>

type_synonym float = "real option"

fun flt_lt :: "float \<Rightarrow> float \<Rightarrow> bool" where
  "flt_lt (Some x) (Some y) = (x < y)"
| "flt_lt _ _ = False"

fun flt_gt :: "float \<Rightarrow> float \<Rightarrow> bool" where
  "flt_gt (Some x) (Some y) = (x > y)"
| "flt_gt _ _ = False"

fun flt_le :: "float \<Rightarrow> float \<Rightarrow> bool" where
  "flt_le (Some x) (Some y) = (x \<le> y)"
| "flt_le _ _ = False"

fun flt_ne :: "float \<Rightarrow> float \<Rightarrow> bool" where
  "flt_ne (Some x) (Some y) = (x \<noteq> y)"
| "flt_ne _ _ = True"

fun fadd :: "float \<Rightarrow> float \<Rightarrow> float" where
  "fadd (Some x) (Some y) = Some (x + y)"
| "fadd _ _ = None"

fun fsub :: "float \<Rightarrow> float \<Rightarrow> float" where
  "fsub (Some x) (Some y) = Some (x - y)"
| "fsub _ _ = None"

fun fmul :: "float \<Rightarrow> float \<Rightarrow> float" where
  "fmul (Some x) (Some y) = Some (x * y)"
| "fmul _ _ = None"

fun fdiv :: "float \<Rightarrow> float \<Rightarrow> float" where
  "fdiv (Some x) (Some y) = (if y = 0 then None else Some (x / y))"
| "fdiv _ _ = None"

fun fabs :: "float \<Rightarrow> float" where
  "fabs (Some x) = Some \<bar>x\<bar>"
| "fabs None = None"

text \<open>
  Python's \<open>round(x, n)\<close>: the nearest multiple of \<open>10^-n\<close>, a tie going to the even
  neighbour; NaN stays NaN.
\<close>

definition round_half_even :: "real \<Rightarrow> int" where
  "round_half_even x =
     (let f = \<lfloor>x\<rfloor>; d = x - of_int f
      in if d < 1 / 2 then f
         else if 1 / 2 < d then f + 1
         else if even f then f else f + 1)"

definition py_round :: "float \<Rightarrow> nat \<Rightarrow> float" where
  "py_round v n =
     (case v of None \<Rightarrow> None
      | Some x \<Rightarrow> Some (of_int (round_half_even (x * 10 ^ n)) / 10 ^ n))"

section \<open>The pandas operations the engine calls\<close>

text \<open>
  \<open>Series.shift(1)\<close>: every value moves one row down, row 0 becomes NaN, the length
  is kept.
\<close>

definition shift1 :: "float list \<Rightarrow> float list" where
  "shift1 xs = (if xs = [] then [] else None # butlast xs)"

text \<open>
  \<open>Series.rolling(window=w).max()\<close> and \<open>.min()\<close> on a column without NaN:
  row \<open>j\<close> is NaN until \<open>w\<close> observations are available (\<open>min_periods\<close> defaults
  to the window), then the extremum of rows \<open>j-w+1 .. j\<close>. An empty window has no
  extremum (NaN).
\<close>

fun window_max :: "real list \<Rightarrow> float" where
  "window_max [] = None"
| "window_max (x # xs) = Some (fold max xs x)"

fun window_min :: "real list \<Rightarrow> float" where
  "window_min [] = None"
| "window_min (x # xs) = Some (fold min xs x)"

definition rolling_window :: "nat \<Rightarrow> real list \<Rightarrow> nat \<Rightarrow> real list" where
  "rolling_window w xs j = take w (drop (j + 1 - w) xs)"

definition rolling_max :: "nat \<Rightarrow> real list \<Rightarrow> float list" where
  "rolling_max w xs =
     map (\<lambda>j. if j + 1 < w then None else window_max (rolling_window w xs j))
       [0..<length xs]"

definition rolling_min :: "nat \<Rightarrow> real list \<Rightarrow> float list" where
  "rolling_min w xs =
     map (\<lambda>j. if j + 1 < w then None else window_min (rolling_window w xs j))
       [0..<length xs]"

text \<open>\<open>Series.pct_change()\<close>: \<open>x / x.shift(1) - 1\<close>.\<close>

definition pct_change_col :: "real list \<Rightarrow> float list" where
  "pct_change_col xs =
     map (\<lambda>(x, p). fsub (fdiv (Some x) p) (Some 1)) (zip xs (shift1 (map Some xs)))"

text \<open>
  \<open>cumprod\<close>, \<open>cummax\<close> and \<open>min\<close> skip NaN: a NaN row stays NaN in the
  cumulative columns and does not change the running value; the minimum of a column
  with no finite value is NaN.
\<close>

fun cumprod_from :: "real \<Rightarrow> float list \<Rightarrow> float list" where
  "cumprod_from acc [] = []"
| "cumprod_from acc (None # xs) = None # cumprod_from acc xs"
| "cumprod_from acc (Some x # xs) = Some (acc * x) # cumprod_from (acc * x) xs"

definition cumprod :: "float list \<Rightarrow> float list" where
  "cumprod xs = cumprod_from 1 xs"

fun cummax_from :: "float \<Rightarrow> float list \<Rightarrow> float list" where
  "cummax_from m [] = []"
| "cummax_from m (None # xs) = None # cummax_from m xs"
| "cummax_from m (Some x # xs) =
     (let m' = (case m of None \<Rightarrow> x | Some y \<Rightarrow> max y x)
      in Some m' # cummax_from (Some m') xs)"

definition cummax :: "float list \<Rightarrow> float list" where
  "cummax xs = cummax_from None xs"

definition finite_values :: "float list \<Rightarrow> real list" where
  "finite_values xs = map the (filter (\<lambda>v. v \<noteq> None) xs)"

definition series_min :: "float list \<Rightarrow> float" where
  "series_min xs = window_min (finite_values xs)"

definition series_mean :: "float list \<Rightarrow> float" where
  "series_mean xs =
     (case finite_values xs of [] \<Rightarrow> None
      | v # vs \<Rightarrow> Some (sum_list (v # vs) / real (length (v # vs))))"

definition series_last :: "float list \<Rightarrow> float" where
  "series_last xs = (if xs = [] then None else last xs)"

section \<open>quant_engine.py\<close>

record StrategyConfig =
  lookback_window :: int
  profit_target_pct :: real
  stop_loss_pct :: real
  fee_per_trade :: real

text \<open>One row of the price frame: the four columns \<open>generate_dummy_data\<close> creates.\<close>

record bar =
  bar_open :: real
  high :: real
  low :: real
  close :: real

text \<open>
  The engine object. Its third attribute, the dictionary \<open>results\<close>, is created
  empty and never read or written again; it is left out.
\<close>

record QuantEngine =
  initial_capital :: real
  data :: "bar list option"

text \<open>The frame \<open>run_strategy\<close> returns: the price rows and the derived columns.\<close>

record frame =
  rows :: "bar list"
  box_high :: "float list"
  box_low :: "float list"
  signal :: "int list"
  pct_change :: "float list"
  strategy_return :: "float list"

datatype error = ValueError string | KeyError string

text \<open>Lines 61-62: the rolling box, shifted by one row.\<close>

definition box_high_col :: "nat \<Rightarrow> bar list \<Rightarrow> float list" where
  "box_high_col w bs = shift1 (rolling_max w (map high bs))"

definition box_low_col :: "nat \<Rightarrow> bar list \<Rightarrow> float list" where
  "box_low_col w bs = shift1 (rolling_min w (map low bs))"

text \<open>Lines 66 and 69: the long signal, then the short signal written over it.\<close>

definition long_signal :: "bar list \<Rightarrow> float list \<Rightarrow> int list" where
  "long_signal bs bh = map (\<lambda>(b, h). if flt_gt (Some (close b)) h then 1 else 0) (zip bs bh)"

definition short_signal :: "bar list \<Rightarrow> float list \<Rightarrow> int list \<Rightarrow> int list" where
  "short_signal bs bl sig =
     map (\<lambda>((b, l), s). if flt_lt (Some (close b)) l then - 1 else s) (zip (zip bs bl) sig)"

text \<open>Line 74: the previous row's signal times this row's price change.\<close>

definition lagged_return :: "int list \<Rightarrow> float list \<Rightarrow> float list" where
  "lagged_return sig pc =
     map (\<lambda>(s, p). fmul s p) (zip (shift1 (map (\<lambda>s. Some (of_int s)) sig)) pc)"

text \<open>Lines 78-85: the stop-loss cap, then the profit-target cap.\<close>

definition stop_loss_cap :: "real \<Rightarrow> float list \<Rightarrow> float list" where
  "stop_loss_cap sl xs = map (\<lambda>r. if flt_lt r (Some (- sl)) then Some (- sl) else r) xs"

definition profit_target_cap :: "real \<Rightarrow> float list \<Rightarrow> float list" where
  "profit_target_cap tp xs = map (\<lambda>r. if flt_gt r (Some tp) then Some tp else r) xs"

definition risk_caps :: "StrategyConfig \<Rightarrow> float list \<Rightarrow> float list" where
  "risk_caps config xs =
     profit_target_cap (profit_target_pct config) (stop_loss_cap (stop_loss_pct config) xs)"

text \<open>Lines 88-90: the fee, on every row whose return is not zero.\<close>

definition apply_fees :: "real \<Rightarrow> float list \<Rightarrow> float list" where
  "apply_fees fee xs = map (\<lambda>r. if flt_ne r (Some 0) then fsub r (Some fee) else r) xs"

text \<open>
  \<open>run_strategy\<close> raises when no data is loaded, and \<open>rolling\<close> refuses a negative
  window with a \<open>ValueError\<close>. Nothing else is checked. What pandas does with a
  window too large for a machine integer (\<open>2^63\<close> and up, an \<open>OverflowError\<close>) is
  not represented: the statements below that tell which inputs are accepted keep the
  window under that bound.
\<close>

definition run_strategy :: "QuantEngine \<Rightarrow> StrategyConfig \<Rightarrow> error + frame" where
  "run_strategy self config =
     (case data self of
        None \<Rightarrow> Inl (ValueError ''Data not loaded. Run generate_dummy_data() first.'')
      | Some df \<Rightarrow>
          if lookback_window config < 0
          then Inl (ValueError ''window must be an integer 0 or greater'')
          else
            let w = nat (lookback_window config);
                bh = box_high_col w df;
                bl = box_low_col w df;
                sig = short_signal df bl (long_signal df bh);
                pc = pct_change_col (map close df);
                sr = lagged_return sig pc;
                sr = risk_caps config sr;
                sr = apply_fees (fee_per_trade config) sr
            in Inr \<lparr>rows = df, box_high = bh, box_low = bl, signal = sig,
                     pct_change = pc, strategy_return = sr\<rparr>)"

text \<open>
  The metrics dictionary: keys in insertion order, values Python ints or floats.
\<close>

datatype pyval = PyInt int | PyFloat float

type_synonym metrics = "(string \<times> pyval) list"

definition trades_of :: "float list \<Rightarrow> float list" where
  "trades_of sr = filter (\<lambda>r. flt_ne r (Some 0)) sr"

definition drawdown_col :: "float list \<Rightarrow> float list" where
  "drawdown_col sr =
     (let cumulative_returns = cumprod (map (\<lambda>r. fadd (Some 1) r) sr);
          peak = cummax cumulative_returns
      in map (\<lambda>(c, p). fdiv (fsub c p) p) (zip cumulative_returns peak))"

definition calculate_metrics :: "frame \<Rightarrow> metrics" where
  "calculate_metrics df_results =
     (let trades = trades_of (strategy_return df_results)
      in if length trades = 0
         then [(''win_rate'', PyInt 0), (''total_trades'', PyInt 0), (''expectancy'', PyInt 0)]
         else
           let total_trades = length trades;
               winning_trades = filter (\<lambda>r. flt_gt r (Some 0)) trades;
               win_rate = real (length winning_trades) / real total_trades;
               avg_win = (if length winning_trades > 0 then series_mean winning_trades
                          else Some 0);
               losing_trades = filter (\<lambda>r. flt_le r (Some 0)) trades;
               avg_loss = (if length losing_trades > 0 then fabs (series_mean losing_trades)
                           else Some 0);
               expectancy = fsub (fmul (Some win_rate) avg_win)
                                 (fmul (Some (1 - win_rate)) avg_loss);
               cumulative_returns =
                 cumprod (map (\<lambda>r. fadd (Some 1) r) (strategy_return df_results));
               max_drawdown = series_min (drawdown_col (strategy_return df_results))
           in [(''total_trades'', PyInt (int total_trades)),
               (''win_rate'', PyFloat (py_round (Some (win_rate * 100)) 2)),
               (''max_drawdown_pct'', PyFloat (py_round (fmul max_drawdown (Some 100)) 2)),
               (''expectancy'', PyFloat (py_round (fmul expectancy (Some 100)) 4)),
               (''net_profit_pct'',
                  PyFloat (py_round (fmul (fsub (series_last cumulative_returns) (Some 1))
                                          (Some 100)) 2))])"

section \<open>run_optimizer.py\<close>

text \<open>
  One entry of \<open>results_log\<close>. The metric values are copied from the metrics
  dictionary as they are.
\<close>

record grid_row =
  Window :: int
  StopLoss :: real
  TakeProfit :: real
  WinRate :: pyval
  Trades :: pyval
  Drawdown :: pyval
  Expectancy :: pyval

text \<open>Line 21: \<open>itertools.product\<close> of the three lists, the last one varying fastest.\<close>

definition combinations_of :: "int list \<Rightarrow> real list \<Rightarrow> real list \<Rightarrow> (int \<times> real \<times> real) list" where
  "combinations_of ws sls tps = List.product ws (List.product sls tps)"

text \<open>Subscripting the metrics dictionary raises \<open>KeyError\<close> on a missing key.\<close>

definition getitem :: "metrics \<Rightarrow> string \<Rightarrow> error + pyval" where
  "getitem m k = (case map_of m k of None \<Rightarrow> Inl (KeyError k) | Some v \<Rightarrow> Inr v)"

text \<open>
  Lines 33-54, the body of the loop: the configuration takes the default fee of the
  dataclass; an exception of \<open>run_strategy\<close> or of a dictionary access ends the sweep.
\<close>

definition default_fee :: real where
  "default_fee = 2 / 10000"

definition grid_step :: "QuantEngine \<Rightarrow> int \<times> real \<times> real \<Rightarrow> error + grid_row" where
  "grid_step engine c =
     (case c of (window, sl, tp) \<Rightarrow>
        let config = \<lparr>lookback_window = window, profit_target_pct = tp,
                       stop_loss_pct = sl, fee_per_trade = default_fee\<rparr>
        in case run_strategy engine config of
             Inl e \<Rightarrow> Inl e
           | Inr df_backtest \<Rightarrow>
               let metrics = calculate_metrics df_backtest
               in case getitem metrics ''win_rate'' of Inl e \<Rightarrow> Inl e | Inr wr \<Rightarrow>
                  case getitem metrics ''total_trades'' of Inl e \<Rightarrow> Inl e | Inr tt \<Rightarrow>
                  case getitem metrics ''max_drawdown_pct'' of Inl e \<Rightarrow> Inl e | Inr dd \<Rightarrow>
                  case getitem metrics ''expectancy'' of Inl e \<Rightarrow> Inl e | Inr ex \<Rightarrow>
                    Inr \<lparr>Window = window, StopLoss = sl, TakeProfit = tp, WinRate = wr,
                         Trades = tt, Drawdown = dd, Expectancy = ex\<rparr>)"

fun grid_loop :: "QuantEngine \<Rightarrow> (int \<times> real \<times> real) list \<Rightarrow> grid_row list \<Rightarrow> error + grid_row list" where
  "grid_loop engine [] results_log = Inr results_log"
| "grid_loop engine (c # cs) results_log =
     (case grid_step engine c of
        Inl e \<Rightarrow> Inl e
      | Inr row \<Rightarrow> grid_loop engine cs (results_log @ [row]))"

definition row_params :: "grid_row \<Rightarrow> int \<times> real \<times> real" where
  "row_params r = (Window r, StopLoss r, TakeProfit r)"

text \<open>
  Lines 11-54 of \<open>main\<close>, with the generated price frame and the three grid lists as
  parameters; \<open>main\<close> itself runs it on the three literal lists.
\<close>

definition sweep :: "bar list \<Rightarrow> int list \<Rightarrow> real list \<Rightarrow> real list \<Rightarrow> error + grid_row list" where
  "sweep df ws sls tps =
     grid_loop \<lparr>initial_capital = 10000, data = Some df\<rparr> (combinations_of ws sls tps) []"

definition lookback_windows :: "int list" where
  "lookback_windows = [10, 20, 50, 100]"

definition stop_losses :: "real list" where
  "stop_losses = [1 / 1000, 2 / 1000, 5 / 1000]"

definition take_profits :: "real list" where
  "take_profits = [2 / 1000, 5 / 1000, 1 / 100]"

definition main_results_log :: "bar list \<Rightarrow> error + grid_row list" where
  "main_results_log df = sweep df lookback_windows stop_losses take_profits"

section \<open>Vocabulary of the claims\<close>

text \<open>
  The equity curve of a return series never falls below its running peak: at no row is
  the cumulative product smaller than the cumulative maximum (the two columns of
  lines 120-121).
\<close>

definition never_below_peak :: "float list \<Rightarrow> bool" where
  "never_below_peak sr =
     (let cumulative_returns = cumprod (map (\<lambda>r. fadd (Some 1) r) sr);
          peak = cummax cumulative_returns
      in list_all (\<lambda>(c, p). \<not> flt_lt c p) (zip cumulative_returns peak))"

section \<open>Facts about the columns\<close>

subsection \<open>Shift and rolling window\<close>

lemma length_shift1: "length (shift1 xs) = length xs"
  by (simp add: shift1_def)

lemma nth_shift1: "i < length xs \<Longrightarrow> shift1 xs ! i = (if i = 0 then None else xs ! (i - 1))"
  by (cases i) (auto simp: shift1_def nth_butlast)

lemma length_rolling_max: "length (rolling_max w xs) = length xs"
  by (simp add: rolling_max_def)

lemma length_rolling_min: "length (rolling_min w xs) = length xs"
  by (simp add: rolling_min_def)

lemma window_max_Max: "xs \<noteq> [] \<Longrightarrow> window_max xs = Some (Max (set xs))"
  by (cases xs) (simp_all add: Max.set_eq_fold del: set_simps)

lemma window_min_Min: "xs \<noteq> [] \<Longrightarrow> window_min xs = Some (Min (set xs))"
  by (cases xs) (simp_all add: Min.set_eq_fold del: set_simps)

lemma set_take_drop: "a + w \<le> length xs \<Longrightarrow> set (take w (drop a xs)) = (\<lambda>k. xs ! k) ` {a ..< a + w}"
proof -
  assume h: "a + w \<le> length xs"
  have "take w (drop a xs) = map (\<lambda>k. xs ! k) [a ..< a + w]"
    using h by (intro nth_equalityI) (auto simp: )
  then show ?thesis by simp
qed

lemma set_rolling_window:
  assumes "w \<le> j + 1" "j < length xs"
  shows "set (rolling_window w xs j) = (\<lambda>k. xs ! k) ` {j + 1 - w ..< j + 1}"
  using assms set_take_drop [of "j + 1 - w" w xs] by (simp add: rolling_window_def)

lemma rolling_window_nonempty:
  assumes "1 \<le> w" "w \<le> j + 1" "j < length xs"
  shows "rolling_window w xs j \<noteq> []"
  using assms by (simp add: rolling_window_def)

lemma nth_box_high_col:
  assumes "i < length bs"
  shows "box_high_col w bs ! i =
    (if i = 0 \<or> i < w then None else window_max (rolling_window w (map high bs) (i - 1)))"
  using assms by (auto simp: box_high_col_def nth_shift1 length_rolling_max rolling_max_def)

lemma nth_box_low_col:
  assumes "i < length bs"
  shows "box_low_col w bs ! i =
    (if i = 0 \<or> i < w then None else window_min (rolling_window w (map low bs) (i - 1)))"
  using assms by (auto simp: box_low_col_def nth_shift1 length_rolling_min rolling_min_def)

lemma box_high_defined:
  assumes "1 \<le> w" "w \<le> i" "i < length bs"
  shows "box_high_col w bs ! i = Some (Max ((\<lambda>k. high (bs ! k)) ` {i - w ..< i}))"
proof -
  have nz: "rolling_window w (map high bs) (i - 1) \<noteq> []"
    using assms by (intro rolling_window_nonempty) auto
  have "set (rolling_window w (map high bs) (i - 1)) = (\<lambda>k. map high bs ! k) ` {i - w ..< i}"
    using assms set_rolling_window [of w "i - 1" "map high bs"] by simp
  also have "\<dots> = (\<lambda>k. high (bs ! k)) ` {i - w ..< i}"
    using assms by (intro image_cong) auto
  finally show ?thesis
    using assms nz by (simp add: nth_box_high_col window_max_Max)
qed

lemma box_low_defined:
  assumes "1 \<le> w" "w \<le> i" "i < length bs"
  shows "box_low_col w bs ! i = Some (Min ((\<lambda>k. low (bs ! k)) ` {i - w ..< i}))"
proof -
  have nz: "rolling_window w (map low bs) (i - 1) \<noteq> []"
    using assms by (intro rolling_window_nonempty) auto
  have "set (rolling_window w (map low bs) (i - 1)) = (\<lambda>k. map low bs ! k) ` {i - w ..< i}"
    using assms set_rolling_window [of w "i - 1" "map low bs"] by simp
  also have "\<dots> = (\<lambda>k. low (bs ! k)) ` {i - w ..< i}"
    using assms by (intro image_cong) auto
  finally show ?thesis
    using assms nz by (simp add: nth_box_low_col window_min_Min)
qed

lemma length_box_high_col: "length (box_high_col w bs) = length bs"
  by (simp add: box_high_col_def length_shift1 length_rolling_max)

lemma length_box_low_col: "length (box_low_col w bs) = length bs"
  by (simp add: box_low_col_def length_shift1 length_rolling_min)

lemma length_signal: "length (short_signal bs (box_low_col w bs) (long_signal bs (box_high_col w bs))) = length bs"
  by (simp add: short_signal_def long_signal_def length_box_high_col length_box_low_col)

lemma nth_signal:
  assumes "i < length bs"
  shows "short_signal bs (box_low_col w bs) (long_signal bs (box_high_col w bs)) ! i =
    (if flt_lt (Some (close (bs ! i))) (box_low_col w bs ! i) then - 1
     else if flt_gt (Some (close (bs ! i))) (box_high_col w bs ! i) then 1 else 0)"
  using assms
  by (simp add: short_signal_def long_signal_def length_box_high_col length_box_low_col)

subsection \<open>What run_strategy returns\<close>

lemma run_strategy_Inr:
  assumes "run_strategy self config = Inr df"
  obtains bs where "data self = Some bs" "0 \<le> lookback_window config"
    "rows df = bs"
    "box_high df = box_high_col (nat (lookback_window config)) bs"
    "box_low df = box_low_col (nat (lookback_window config)) bs"
    "signal df = short_signal bs (box_low df) (long_signal bs (box_high df))"
    "pct_change df = pct_change_col (map close bs)"
    "strategy_return df = apply_fees (fee_per_trade config) (risk_caps config (lagged_return (signal df) (pct_change df)))"
  using assms
  by (auto simp: run_strategy_def Let_def split: option.splits if_splits)

lemma run_strategy_returns:
  assumes "data self = Some bs" "0 \<le> lookback_window config"
  shows "\<exists>df. run_strategy self config = Inr df \<and> rows df = bs"
  using assms by (simp add: run_strategy_def Let_def)

lemmas run_strategy_eval =
  run_strategy_def Let_def box_high_col_def box_low_col_def rolling_max_def
  rolling_min_def rolling_window_def shift1_def long_signal_def short_signal_def
  pct_change_col_def lagged_return_def risk_caps_def stop_loss_cap_def
  profit_target_cap_def apply_fees_def upt_rec

lemma length_pct_change_col: "length (pct_change_col xs) = length xs"
  by (simp add: pct_change_col_def length_shift1)

lemma length_lagged_return: "length (lagged_return sig pc) = min (length sig) (length pc)"
  by (simp add: lagged_return_def length_shift1)

lemma length_risk_caps: "length (risk_caps config xs) = length xs"
  by (simp add: risk_caps_def stop_loss_cap_def profit_target_cap_def)

lemma length_apply_fees: "length (apply_fees fee xs) = length xs"
  by (simp add: apply_fees_def)

lemma nth_pct_change_col:
  assumes "i < length xs" "0 < i" "xs ! (i - 1) \<noteq> 0"
  shows "pct_change_col xs ! i = Some (xs ! i / xs ! (i - 1) - 1)"
  using assms by (simp add: pct_change_col_def length_shift1 nth_shift1)

lemma nth_lagged_return:
  assumes "i < length sig" "i < length pc" "0 < i"
  shows "lagged_return sig pc ! i = fmul (Some (of_int (sig ! (i - 1)))) (pc ! i)"
  using assms by (simp add: lagged_return_def length_shift1 nth_shift1)

lemma nth_lagged_return_0:
  assumes "0 < length sig" "0 < length pc"
  shows "lagged_return sig pc ! 0 = None"
  using assms by (simp add: lagged_return_def length_shift1 nth_shift1)

lemma nth_risk_caps_NaN:
  assumes "i < length xs" "xs ! i = None"
  shows "risk_caps config xs ! i = None"
  using assms by (simp add: risk_caps_def stop_loss_cap_def profit_target_cap_def)

lemma nth_apply_fees_NaN:
  assumes "i < length xs" "xs ! i = None"
  shows "apply_fees fee xs ! i = None"
  using assms by (simp add: apply_fees_def)

lemma strategy_return_bar0:
  assumes "run_strategy self config = Inr df" "rows df \<noteq> []"
  shows "length (strategy_return df) = length (rows df) \<and> strategy_return df ! 0 = None"
proof -
  from assms(1) obtain bs where r: "rows df = bs"
    "box_high df = box_high_col (nat (lookback_window config)) bs"
    "box_low df = box_low_col (nat (lookback_window config)) bs"
    "signal df = short_signal bs (box_low df) (long_signal bs (box_high df))"
    "pct_change df = pct_change_col (map close bs)"
    "strategy_return df = apply_fees (fee_per_trade config)
       (risk_caps config (lagged_return (signal df) (pct_change df)))"
    by (rule run_strategy_Inr)
  have ls: "length (signal df) = length bs"
    using r(2,3,4) by (simp add: length_signal)
  have lp: "length (pct_change df) = length bs"
    using r(5) by (simp add: length_pct_change_col)
  have ll: "length (lagged_return (signal df) (pct_change df)) = length bs"
    using ls lp by (simp add: length_lagged_return)
  have pos: "0 < length bs" using assms(2) r(1) by simp
  have "lagged_return (signal df) (pct_change df) ! 0 = None"
    using ls lp pos by (simp add: nth_lagged_return_0)
  then have "risk_caps config (lagged_return (signal df) (pct_change df)) ! 0 = None"
    using ll pos by (simp add: nth_risk_caps_NaN)
  then have "strategy_return df ! 0 = None"
    using r(6) ll pos by (simp add: nth_apply_fees_NaN length_risk_caps)
  moreover have "length (strategy_return df) = length (rows df)"
    using r(1,6) ll by (simp add: length_apply_fees length_risk_caps)
  ultimately show ?thesis by simp
qed

lemma lagged_return_after_bar0:
  assumes "run_strategy self config = Inr df" "0 < i" "i < length (rows df)"
    "close (rows df ! (i - 1)) \<noteq> 0"
  shows "lagged_return (signal df) (pct_change df) ! i =
           Some (of_int (signal df ! (i - 1)) *
                 (close (rows df ! i) / close (rows df ! (i - 1)) - 1))"
proof -
  from assms(1) obtain bs where r: "rows df = bs"
    "box_high df = box_high_col (nat (lookback_window config)) bs"
    "box_low df = box_low_col (nat (lookback_window config)) bs"
    "signal df = short_signal bs (box_low df) (long_signal bs (box_high df))"
    "pct_change df = pct_change_col (map close bs)"
    by (rule run_strategy_Inr)
  have ls: "length (signal df) = length bs"
    using r(2,3,4) by (simp add: length_signal)
  have lp: "length (pct_change df) = length bs"
    using r(5) by (simp add: length_pct_change_col)
  have pc: "pct_change df ! i = Some (close (bs ! i) / close (bs ! (i - 1)) - 1)"
    using assms(2,3,4) r(1,5) nth_pct_change_col [of i "map close bs"] by simp
  show ?thesis
    using assms(2,3) r(1) ls lp pc by (simp add: nth_lagged_return)
qed

subsection \<open>Trades and the metrics dictionary\<close>

lemma NaN_is_a_trade:
  assumes "None \<in> set sr"
  shows "None \<in> set (trades_of sr)"
  using assms by (simp add: trades_of_def)

lemma metrics_with_trades:
  assumes "trades_of (strategy_return df) \<noteq> []"
  shows "map_of (calculate_metrics df) ''total_trades'' =
           Some (PyInt (int (length (trades_of (strategy_return df)))))"
    and "\<exists>v. map_of (calculate_metrics df) ''win_rate'' = Some v"
    and "\<exists>v. map_of (calculate_metrics df) ''max_drawdown_pct'' = Some v"
    and "\<exists>v. map_of (calculate_metrics df) ''expectancy'' = Some v"
    and "map_of (calculate_metrics df) ''max_drawdown_pct'' =
           Some (PyFloat (py_round (fmul (series_min (drawdown_col (strategy_return df))) (Some 100)) 2))"
  using assms by (simp_all add: calculate_metrics_def Let_def)

lemma pipeline_has_trades:
  assumes "run_strategy self config = Inr df" "rows df \<noteq> []"
  shows "trades_of (strategy_return df) \<noteq> []"
proof -
  have b0: "length (strategy_return df) = length (rows df)" "strategy_return df ! 0 = None"
    using strategy_return_bar0 [OF assms] by auto
  have "strategy_return df ! 0 \<in> set (strategy_return df)"
    using b0(1) assms(2) by (intro nth_mem) simp
  then have "None \<in> set (trades_of (strategy_return df))"
    using b0(2) by (simp add: NaN_is_a_trade)
  then show ?thesis by auto
qed

lemma getitem_Some: "map_of m k = Some v \<Longrightarrow> getitem m k = Inr v"
  by (simp add: getitem_def)

subsection \<open>Rounding\<close>

lemma round_half_even_nonpos:
  assumes "x \<le> 0"
  shows "round_half_even x \<le> 0"
proof -
  have f0: "\<lfloor>x\<rfloor> \<le> 0" using assms by (simp add: floor_le_iff) 
  show ?thesis
  proof (cases "x - of_int \<lfloor>x\<rfloor> < 1 / 2")
    case True
    then show ?thesis using f0 by (simp add: round_half_even_def Let_def)
  next
    case False
    have "\<lfloor>x\<rfloor> \<noteq> 0"
    proof
      assume z: "\<lfloor>x\<rfloor> = 0"
      then have "0 \<le> x" by (metis of_int_0 of_int_floor_le)
      with assms have "x = 0" by simp
      with False show False by simp
    qed
    with f0 have "\<lfloor>x\<rfloor> + 1 \<le> 0" by linarith
    with f0 show ?thesis by (simp add: round_half_even_def Let_def)
  qed
qed

lemma round_half_even_zero: "round_half_even 0 = 0"
  by (simp add: round_half_even_def)

lemma py_round_pct:
  assumes "m \<le> 0"
  shows "\<exists>v. py_round (fmul (Some m) (Some 100)) 2 = Some v \<and> v \<le> 0 \<and> (m = 0 \<longrightarrow> v = 0)"
proof -
  define k where "k = round_half_even (m * 100 * 10 ^ 2)"
  have x: "m * 100 * 10 ^ 2 \<le> 0" using assms by (simp add: mult_le_0_iff)
  have k0: "k \<le> 0" unfolding k_def using x by (rule round_half_even_nonpos)
  have kz: "k = 0" if "m = 0"
    unfolding k_def using that by (simp add: round_half_even_zero)
  have "py_round (fmul (Some m) (Some 100)) 2 = Some (of_int k / 10 ^ 2)"
    by (simp add: py_round_def k_def)
  moreover have "(of_int k / 10 ^ 2 :: real) \<le> 0" using k0 by (simp add: divide_le_0_iff)
  moreover have "m = 0 \<longrightarrow> of_int k / 10 ^ 2 = (0::real)"
    using kz by simp
  ultimately show ?thesis by blast
qed

subsection \<open>The equity curve and its drawdown\<close>

lemma zip_cum_peak:
  assumes "0 < acc" "\<forall>g. Some g \<in> set gs \<longrightarrow> 0 < g"
    "(c, p) \<in> set (zip (cumprod_from acc gs) (cummax_from m (cumprod_from acc gs)))"
  shows "(c = None \<and> p = None) \<or> (\<exists>cv pv. c = Some cv \<and> p = Some pv \<and> 0 < cv \<and> cv \<le> pv)"
  using assms
proof (induction gs arbitrary: acc m)
  case Nil
  then show ?case by simp
next
  case (Cons g gs)
  show ?case
  proof (cases g)
    case None
    with Cons.prems have "(c, p) = (None, None) \<or>
        (c, p) \<in> set (zip (cumprod_from acc gs) (cummax_from m (cumprod_from acc gs)))"
      by simp
    then show ?thesis
    proof
      assume "(c, p) = (None, None)" then show ?thesis by simp
    next
      assume "(c, p) \<in> set (zip (cumprod_from acc gs) (cummax_from m (cumprod_from acc gs)))"
      with Cons.IH [of acc m] Cons.prems show ?thesis by simp
    qed
  next
    case (Some x)
    with Cons.prems have x: "0 < x" by simp
    then have ax: "0 < acc * x" using Cons.prems(1) by simp
    define m' where "m' = (case m of None \<Rightarrow> acc * x | Some y \<Rightarrow> max y (acc * x))"
    have m': "acc * x \<le> m'" by (simp add: m'_def split: option.splits)
    from Cons.prems Some have "(c, p) = (Some (acc * x), Some m') \<or>
        (c, p) \<in> set (zip (cumprod_from (acc * x) gs)
                          (cummax_from (Some m') (cumprod_from (acc * x) gs)))"
      by (simp add: m'_def Let_def)
    then show ?thesis
    proof
      assume "(c, p) = (Some (acc * x), Some m')"
      then show ?thesis using ax m' by simp
    next
      assume "(c, p) \<in> set (zip (cumprod_from (acc * x) gs)
                          (cummax_from (Some m') (cumprod_from (acc * x) gs)))"
      with Cons.IH [of "acc * x" "Some m'"] ax Cons.prems(2) show ?thesis by simp
    qed
  qed
qed

lemma zip_cum_peak_first:
  assumes "0 < acc" "\<forall>g. Some g \<in> set gs \<longrightarrow> 0 < g" "\<exists>g. Some g \<in> set gs"
  shows "\<exists>cv. 0 < cv \<and> (Some cv, Some cv) \<in>
           set (zip (cumprod_from acc gs) (cummax_from None (cumprod_from acc gs)))"
  using assms
proof (induction gs)
  case Nil
  then show ?case by simp
next
  case (Cons g gs)
  show ?case
  proof (cases g)
    case None
    with Cons show ?thesis by auto
  next
    case (Some x)
    with Cons.prems have "0 < acc * x" by simp
    then show ?thesis using Some by (auto simp: Let_def)
  qed
qed

lemma growth_positive:
  assumes "\<forall>r. Some r \<in> set sr \<longrightarrow> - 1 < r"
  shows "\<forall>g. Some g \<in> set (map (\<lambda>r. fadd (Some 1) r) sr) \<longrightarrow> 0 < g"
proof (intro allI impI)
  fix g assume "Some g \<in> set (map (\<lambda>r. fadd (Some 1) r) sr)"
  then obtain r where r: "r \<in> set sr" "fadd (Some 1) r = Some g" by auto
  from r(2) obtain x where x: "r = Some x" "g = 1 + x" by (cases r) auto
  with r(1) assms have "- 1 < x" by simp
  with x(2) show "0 < g" by simp
qed

lemma growth_exists:
  assumes "\<exists>r. Some r \<in> set sr"
  shows "\<exists>g. Some g \<in> set (map (\<lambda>r. fadd (Some 1) r) sr)"
proof -
  from assms obtain r where "Some r \<in> set sr" by blast
  then have "fadd (Some 1) (Some r) \<in> (\<lambda>r. fadd (Some 1) r) ` set sr"
    by (rule imageI)
  then have "Some (1 + r) \<in> set (map (\<lambda>r. fadd (Some 1) r) sr)" by simp
  then show ?thesis by blast
qed

lemma drawdown_elem:
  assumes "\<forall>r. Some r \<in> set sr \<longrightarrow> - 1 < r" "Some d \<in> set (drawdown_col sr)"
  shows "\<exists>cv pv. (Some cv, Some pv) \<in>
           set (zip (cumprod (map (\<lambda>r. fadd (Some 1) r) sr))
                    (cummax (cumprod (map (\<lambda>r. fadd (Some 1) r) sr)))) \<and>
           0 < cv \<and> cv \<le> pv \<and> d = (cv - pv) / pv"
proof -
  let ?cum = "cumprod (map (\<lambda>r. fadd (Some 1) r) sr)"
  from assms(2) obtain c p where cp: "(c, p) \<in> set (zip ?cum (cummax ?cum))"
    and d: "Some d = fdiv (fsub c p) p"
    by (auto simp: drawdown_col_def Let_def)
  from cp have "(c = None \<and> p = None) \<or>
      (\<exists>cv pv. c = Some cv \<and> p = Some pv \<and> 0 < cv \<and> cv \<le> pv)"
    unfolding cumprod_def cummax_def
    by (rule zip_cum_peak [OF zero_less_one growth_positive [OF assms(1)]])
  with d obtain cv pv where v: "c = Some cv" "p = Some pv" "0 < cv" "cv \<le> pv"
    by auto
  with d have "d = (cv - pv) / pv" by (simp split: if_splits)
  with cp v show ?thesis by blast
qed

lemma drawdown_nonpos:
  assumes "\<forall>r. Some r \<in> set sr \<longrightarrow> - 1 < r" "Some d \<in> set (drawdown_col sr)"
  shows "d \<le> 0"
proof -
  from drawdown_elem [OF assms] obtain cv pv where
    "0 < cv" "cv \<le> pv" "d = (cv - pv) / pv" by blast
  then show ?thesis by (simp add: divide_le_0_iff)
qed

lemma drawdown_has_zero:
  assumes "\<forall>r. Some r \<in> set sr \<longrightarrow> - 1 < r" "\<exists>r. Some r \<in> set sr"
  shows "Some 0 \<in> set (drawdown_col sr)"
proof -
  let ?cum = "cumprod (map (\<lambda>r. fadd (Some 1) r) sr)"
  from zip_cum_peak_first [OF zero_less_one growth_positive [OF assms(1)] growth_exists [OF assms(2)]]
  obtain cv where cv: "0 < cv" "(Some cv, Some cv) \<in> set (zip ?cum (cummax ?cum))"
    unfolding cumprod_def cummax_def by blast
  have "(\<lambda>(c, p). fdiv (fsub c p) p) (Some cv, Some cv) \<in> set (drawdown_col sr)"
    unfolding drawdown_col_def Let_def set_map using cv(2) by (rule imageI)
  then show ?thesis using cv(1) by simp
qed

lemma set_finite_values: "set (finite_values xs) = {d. Some d \<in> set xs}"
proof (intro set_eqI iffI)
  fix d assume "d \<in> set (finite_values xs)"
  then obtain v where "v \<in> set xs" "v \<noteq> None" "d = the v"
    by (auto simp: finite_values_def)
  then show "d \<in> {d. Some d \<in> set xs}" by auto
next
  fix d assume "d \<in> {d. Some d \<in> set xs}"
  then have "Some d \<in> {v \<in> set xs. v \<noteq> None}" by simp
  then have "the (Some d) \<in> the ` {v \<in> set xs. v \<noteq> None}" by (rule imageI)
  then show "d \<in> set (finite_values xs)" by (simp add: finite_values_def)
qed

lemma series_min_Min:
  assumes "Some d \<in> set xs"
  shows "series_min xs = Some (Min {d. Some d \<in> set xs})"
proof -
  have "d \<in> set (finite_values xs)" using assms by (simp add: set_finite_values)
  then have "finite_values xs \<noteq> []" by auto
  then show ?thesis by (simp add: series_min_def window_min_Min set_finite_values)
qed

lemma max_drawdown_value:
  assumes "\<forall>r. Some r \<in> set sr \<longrightarrow> - 1 < r" "\<exists>r. Some r \<in> set sr"
  shows "\<exists>m. series_min (drawdown_col sr) = Some m \<and> m \<le> 0 \<and>
           (\<forall>c. c \<le> m \<longleftrightarrow> (\<forall>d. Some d \<in> set (drawdown_col sr) \<longrightarrow> c \<le> d))"
proof -
  let ?D = "{d. Some d \<in> set (drawdown_col sr)}"
  have z: "0 \<in> ?D" using drawdown_has_zero [OF assms] by simp
  have fin: "finite ?D"
    unfolding set_finite_values [symmetric] by (rule finite_set)
  have ne: "?D \<noteq> {}" using z by blast
  have m: "series_min (drawdown_col sr) = Some (Min ?D)"
    using z by (intro series_min_Min) simp
  have "Min ?D \<le> 0" using fin z by (rule Min_le)
  moreover have "\<forall>c. c \<le> Min ?D \<longleftrightarrow> (\<forall>d. Some d \<in> set (drawdown_col sr) \<longrightarrow> c \<le> d)"
    using fin ne by (simp add: Min_ge_iff)
  ultimately show ?thesis using m by blast
qed

lemma never_below_peak_drawdown:
  assumes "\<forall>r. Some r \<in> set sr \<longrightarrow> - 1 < r" "never_below_peak sr"
    "Some d \<in> set (drawdown_col sr)"
  shows "d = 0"
proof -
  let ?cum = "cumprod (map (\<lambda>r. fadd (Some 1) r) sr)"
  from drawdown_elem [OF assms(1,3)] obtain cv pv where
    v: "(Some cv, Some pv) \<in> set (zip ?cum (cummax ?cum))" "0 < cv" "cv \<le> pv"
       "d = (cv - pv) / pv" by blast
  from assms(2) v(1) have "\<not> flt_lt (Some cv) (Some pv)"
    by (auto simp: never_below_peak_def Let_def list_all_iff)
  then have "cv = pv" using v(3) by simp
  with v show ?thesis by simp
qed

subsection \<open>The sweep\<close>

lemma grid_step_ok:
  assumes "data engine = Some bs" "bs \<noteq> []" "0 \<le> fst c"
  shows "\<exists>row. grid_step engine c = Inr row \<and> row_params row = c"
proof -
  obtain window sl tp where c: "c = (window, sl, tp)" by (cases c) auto
  let ?config = "\<lparr>lookback_window = window, profit_target_pct = tp,
                       stop_loss_pct = sl, fee_per_trade = default_fee\<rparr>"
  have w: "0 \<le> lookback_window ?config" using assms(3) c by simp
  from run_strategy_returns [OF assms(1) w]
  obtain df where run: "run_strategy engine ?config = Inr df" and rows: "rows df = bs"
    by blast
  have ne: "trades_of (strategy_return df) \<noteq> []"
    using pipeline_has_trades [OF run] rows assms(2) by simp
  obtain wr where wr: "getitem (calculate_metrics df) ''win_rate'' = Inr wr"
    using metrics_with_trades(2) [OF ne] getitem_Some by blast
  obtain tt where tt: "getitem (calculate_metrics df) ''total_trades'' = Inr tt"
    using metrics_with_trades(1) [OF ne] getitem_Some by blast
  obtain dd where dd: "getitem (calculate_metrics df) ''max_drawdown_pct'' = Inr dd"
    using metrics_with_trades(3) [OF ne] getitem_Some by blast
  obtain ex where ex: "getitem (calculate_metrics df) ''expectancy'' = Inr ex"
    using metrics_with_trades(4) [OF ne] getitem_Some by blast
  have "grid_step engine c = Inr \<lparr>Window = window, StopLoss = sl, TakeProfit = tp, WinRate = wr,
                         Trades = tt, Drawdown = dd, Expectancy = ex\<rparr>"
    unfolding grid_step_def c by (simp add: run wr tt dd ex Let_def)
  then show ?thesis by (simp add: row_params_def c)
qed

lemma grid_loop_ok:
  assumes "\<forall>c \<in> set cs. \<exists>row. grid_step engine c = Inr row \<and> row_params row = c"
  shows "\<exists>new. grid_loop engine cs results_log = Inr (results_log @ new) \<and>
           map row_params new = cs"
  using assms
proof (induction cs arbitrary: results_log)
  case Nil
  then show ?case by simp
next
  case (Cons c cs)
  from Cons.prems obtain row where row: "grid_step engine c = Inr row" "row_params row = c"
    by auto
  from Cons.prems have rest: "\<forall>c \<in> set cs. \<exists>row. grid_step engine c = Inr row \<and> row_params row = c"
    by simp
  from Cons.IH [OF rest, of "results_log @ [row]"] obtain new where new:
    "grid_loop engine cs (results_log @ [row]) = Inr ((results_log @ [row]) @ new)"
    "map row_params new = cs"
    by blast
  have "grid_loop engine (c # cs) results_log = Inr (results_log @ (row # new)) \<and>
        map row_params (row # new) = c # cs"
    using row new by simp
  then show ?case by (rule exI [of _ "row # new"])
qed

lemma length_combinations_of:
  "length (combinations_of ws sls tps) = length ws * length sls * length tps"
  by (simp add: combinations_of_def)

lemma set_combinations_of:
  "set (combinations_of ws sls tps) = set ws \<times> set sls \<times> set tps"
  by (simp add: combinations_of_def)

lemma distinct_combinations_of:
  "distinct ws \<Longrightarrow> distinct sls \<Longrightarrow> distinct tps \<Longrightarrow> distinct (combinations_of ws sls tps)"
  by (simp add: combinations_of_def distinct_product)

section \<open>The claims\<close>

text \<open>
  Claim C1. For every loaded price series and every lookback window \<open>w \<ge> 1\<close>,
  \<open>run_strategy\<close> returns a frame in which, at every row \<open>i\<close>, the box is
  undefined (NaN) and the signal is 0 while \<open>i < w\<close>, and from \<open>i = w\<close> on
  \<open>box_high[i]\<close> is the maximum of the highs and \<open>box_low[i]\<close> the minimum of the
  lows of the rows \<open>i - w, ..., i - 1\<close>: the trailing window without row \<open>i\<close>.
\<close>

theorem C1_trailing_box:
  assumes "data self = Some bs" "1 \<le> lookback_window config" "i < length bs"
  shows "\<exists>df. run_strategy self config = Inr df \<and> rows df = bs \<and>
           length (box_high df) = length bs \<and> length (box_low df) = length bs \<and>
           length (signal df) = length bs \<and>
           (i < nat (lookback_window config) \<longrightarrow>
              box_high df ! i = None \<and> box_low df ! i = None \<and> signal df ! i = 0) \<and>
           (nat (lookback_window config) \<le> i \<longrightarrow>
              box_high df ! i =
                Some (Max ((\<lambda>k. high (bs ! k)) ` {i - nat (lookback_window config) ..< i})) \<and>
              box_low df ! i =
                Some (Min ((\<lambda>k. low (bs ! k)) ` {i - nat (lookback_window config) ..< i})))"
proof -
  define w where "w = nat (lookback_window config)"
  have w1: "1 \<le> w" using assms(2) by (simp add: w_def)
  define df where "df = \<lparr>rows = bs, box_high = box_high_col w bs, box_low = box_low_col w bs,
    signal = short_signal bs (box_low_col w bs) (long_signal bs (box_high_col w bs)),
    pct_change = pct_change_col (map close bs),
    strategy_return = apply_fees (fee_per_trade config) (risk_caps config
      (lagged_return (short_signal bs (box_low_col w bs) (long_signal bs (box_high_col w bs)))
         (pct_change_col (map close bs))))\<rparr>"
  have run: "run_strategy self config = Inr df"
    using assms(1,2) by (simp add: run_strategy_def df_def w_def Let_def)
  have early: "box_high df ! i = None \<and> box_low df ! i = None \<and> signal df ! i = 0" if "i < w"
    using that assms(3) by (simp add: df_def nth_box_high_col nth_box_low_col nth_signal)
  have late: "box_high df ! i = Some (Max ((\<lambda>k. high (bs ! k)) ` {i - w ..< i})) \<and>
              box_low df ! i = Some (Min ((\<lambda>k. low (bs ! k)) ` {i - w ..< i}))" if "w \<le> i"
    using that assms(3) w1 by (simp add: df_def box_high_defined box_low_defined)
  have lens: "length (box_high df) = length bs \<and> length (box_low df) = length bs \<and>
      length (signal df) = length bs"
    by (simp add: df_def length_box_high_col length_box_low_col length_signal)
  have "rows df = bs" by (simp add: df_def)
  with run early late lens show ?thesis
    unfolding w_def [symmetric] by blast
qed

theorem C1_trailing_box_witness:
  "\<exists>df. run_strategy
      \<lparr>initial_capital = 10000,
       data = Some [\<lparr>bar_open = 100, high = 101, low = 99, close = 100\<rparr>,
                    \<lparr>bar_open = 100, high = 102, low = 100, close = 101\<rparr>,
                    \<lparr>bar_open = 101, high = 101, low = 98, close = 99\<rparr>,
                    \<lparr>bar_open = 99, high = 100, low = 99, close = 100\<rparr>]\<rparr>
      \<lparr>lookback_window = 2, profit_target_pct = 1 / 2, stop_loss_pct = 1 / 2,
       fee_per_trade = 0\<rparr> = Inr df \<and>
    box_high df ! 1 = None \<and> box_low df ! 1 = None \<and> signal df ! 1 = 0 \<and>
    box_high df ! 3 = Some 102 \<and> box_low df ! 3 = Some 98"
proof -
  let ?bs = "[\<lparr>bar_open = 100, high = 101, low = 99, close = 100\<rparr>,
              \<lparr>bar_open = 100, high = 102, low = 100, close = 101\<rparr>,
              \<lparr>bar_open = 101, high = 101, low = 98, close = 99\<rparr>,
              \<lparr>bar_open = 99, high = 100, low = 99, close = 100::real\<rparr>]"
  let ?e = "\<lparr>initial_capital = 10000, data = Some ?bs\<rparr>"
  let ?c = "\<lparr>lookback_window = 2, profit_target_pct = 1 / 2, stop_loss_pct = 1 / 2,
             fee_per_trade = 0::real\<rparr>"
  have s13: "{Suc 0..<3} = {1, 2::nat}" by auto
  have a: "\<exists>df. run_strategy ?e ?c = Inr df \<and> box_high df ! 1 = None \<and> box_low df ! 1 = None \<and> signal df ! 1 = 0"
    using C1_trailing_box [of ?e ?bs ?c 1] by auto
  have b: "\<exists>df. run_strategy ?e ?c = Inr df \<and> box_high df ! 3 = Some 102 \<and> box_low df ! 3 = Some 98"
    using C1_trailing_box [of ?e ?bs ?c 3] by (auto simp: s13)
  from a b show ?thesis by auto
qed

text \<open>
  Claim C2. At a row whose box values are both defined the signal is \<open>-1\<close> when the
  close is below \<open>box_low\<close>, otherwise \<open>+1\<close> when the close is above
  \<open>box_high\<close>, otherwise \<open>0\<close>. Both comparisons can hold together only when
  \<open>box_high < box_low\<close>, and then the short signal \<open>-1\<close> wins.
\<close>

theorem C2_signal_rule:
  assumes "run_strategy self config = Inr df" "i < length (rows df)"
    "box_high df ! i = Some bh" "box_low df ! i = Some bl"
  shows "(close (rows df ! i) < bl \<longrightarrow> signal df ! i = - 1) \<and>
         (bh < close (rows df ! i) \<and> \<not> close (rows df ! i) < bl \<longrightarrow> signal df ! i = 1) \<and>
         (\<not> bh < close (rows df ! i) \<and> \<not> close (rows df ! i) < bl \<longrightarrow> signal df ! i = 0) \<and>
         (bh < close (rows df ! i) \<and> close (rows df ! i) < bl \<longrightarrow>
            bh < bl \<and> signal df ! i = - 1)"
proof -
  from assms(1) obtain bs where r: "rows df = bs"
    "box_high df = box_high_col (nat (lookback_window config)) bs"
    "box_low df = box_low_col (nat (lookback_window config)) bs"
    "signal df = short_signal bs (box_low df) (long_signal bs (box_high df))"
    by (rule run_strategy_Inr)
  have "signal df ! i =
    (if flt_lt (Some (close (bs ! i))) (box_low df ! i) then - 1
     else if flt_gt (Some (close (bs ! i))) (box_high df ! i) then 1 else 0)"
    using assms(2) r nth_signal [of i bs "nat (lookback_window config)"] by simp
  then show ?thesis using assms(3,4) r(1) by auto
qed

theorem C2_signal_rule_witness:
  "run_strategy
     \<lparr>initial_capital = 10000,
      data = Some [\<lparr>bar_open = 100, high = 90, low = 110, close = 100\<rparr>,
                   \<lparr>bar_open = 100, high = 90, low = 110, close = 100\<rparr>]\<rparr>
     \<lparr>lookback_window = 1, profit_target_pct = 1 / 2, stop_loss_pct = 1 / 2,
      fee_per_trade = 0\<rparr> =
   Inr \<lparr>rows = [\<lparr>bar_open = 100, high = 90, low = 110, close = 100\<rparr>,
                \<lparr>bar_open = 100, high = 90, low = 110, close = 100\<rparr>],
        box_high = [None, Some 90], box_low = [None, Some 110],
        signal = [0, - 1], pct_change = [None, Some 0],
        strategy_return = [None, Some 0]\<rparr> \<and>
   (90::real) < 100 \<and> (100::real) < 110 \<and> (90::real) < 110 \<and>
   signal \<lparr>rows = [\<lparr>bar_open = 100, high = 90, low = 110, close = 100\<rparr>,
                \<lparr>bar_open = 100, high = 90, low = 110, close = 100\<rparr>],
        box_high = [None, Some 90], box_low = [None, Some 110],
        signal = [0, - 1], pct_change = [None, Some 0],
        strategy_return = [None, Some 0]\<rparr> ! 1 = - 1"
proof -
  let ?e = "\<lparr>initial_capital = 10000,
      data = Some [\<lparr>bar_open = 100, high = 90, low = 110, close = 100\<rparr>,
                   \<lparr>bar_open = 100, high = 90, low = 110, close = 100::real\<rparr>]\<rparr>"
  let ?c = "\<lparr>lookback_window = 1, profit_target_pct = 1 / 2, stop_loss_pct = 1 / 2,
      fee_per_trade = 0::real\<rparr>"
  let ?df = "\<lparr>rows = [\<lparr>bar_open = 100, high = 90, low = 110, close = 100\<rparr>,
                \<lparr>bar_open = 100, high = 90, low = 110, close = 100::real\<rparr>],
        box_high = [None, Some 90], box_low = [None, Some 110],
        signal = [0, - 1], pct_change = [None, Some 0],
        strategy_return = [None, Some 0]\<rparr>"
  have run: "run_strategy ?e ?c = Inr ?df"
    by (simp add: run_strategy_eval)
  have i: "1 < length (rows ?df)" by simp
  have bh: "box_high ?df ! 1 = Some 90" by simp
  have bl: "box_low ?df ! 1 = Some 110" by simp
  from C2_signal_rule [OF run i bh bl]
  have "(90::real) < 110 \<and> signal ?df ! 1 = - 1" by simp
  with run show ?thesis by simp
qed

text \<open>
  Claim C3 says that the strategy return of bar 0 is 0. The code leaves it NaN:
  \<open>signal.shift(1)\<close> and \<open>pct_change()\<close> are both NaN at row 0, nothing fills the
  gap, the caps and the fee keep NaN, and \<open>calculate_metrics\<close> counts the row as a
  trade. The evaluation below is the three-bar series with closes 100, 102, 104,
  window 1, caps 0.5 and no fee: the only position is the one entered at bar 1, yet
  the trade filter keeps two rows.
\<close>

theorem C3_bar0_return_is_NaN:
  "lagged_return [0, 1, 1] (pct_change_col [100, 102, 104]) = [None, Some 0, Some (1 / 51)] \<and>
   run_strategy
     \<lparr>initial_capital = 10000,
      data = Some [\<lparr>bar_open = 100, high = 101, low = 99, close = 100\<rparr>,
                   \<lparr>bar_open = 100, high = 103, low = 99, close = 102\<rparr>,
                   \<lparr>bar_open = 102, high = 105, low = 101, close = 104\<rparr>]\<rparr>
     \<lparr>lookback_window = 1, profit_target_pct = 1 / 2, stop_loss_pct = 1 / 2,
      fee_per_trade = 0\<rparr> =
   Inr \<lparr>rows = [\<lparr>bar_open = 100, high = 101, low = 99, close = 100\<rparr>,
                \<lparr>bar_open = 100, high = 103, low = 99, close = 102\<rparr>,
                \<lparr>bar_open = 102, high = 105, low = 101, close = 104\<rparr>],
        box_high = [None, Some 101, Some 103],
        box_low = [None, Some 99, Some 99], signal = [0, 1, 1],
        pct_change = [None, Some (1 / 50), Some (1 / 51)],
        strategy_return = [None, Some 0, Some (1 / 51)]\<rparr> \<and>
   trades_of [None, Some 0, Some (1 / 51)] = [None, Some (1 / 51)]"
  by (simp add: run_strategy_eval trades_of_def)




text \<open>
  Claim C6 says that \<open>max_drawdown_pct\<close> is 0 exactly when the equity curve never
  falls below its running peak. The value is rounded to two decimals, so a small
  drawdown is reported as 0 too: after a gain of 1 percent a loss of 0.001 percent
  puts the curve below its peak, and the reported value is 0.
\<close>

theorem C6_small_drawdown_reported_as_zero:
  "drawdown_col [None, Some (1 / 100), Some (- (1 / 100000))] =
     [None, Some 0, Some (- (1 / 100000))] \<and>
   \<not> never_below_peak [None, Some (1 / 100), Some (- (1 / 100000))] \<and>
   map_of (calculate_metrics \<lparr>rows = [], box_high = [], box_low = [], signal = [],
      pct_change = [], strategy_return = [None, Some (1 / 100), Some (- (1 / 100000))]\<rparr>)
     ''max_drawdown_pct'' = Some (PyFloat (Some 0))"
proof -
  let ?sr = "[None, Some (1 / 100), Some (- (1 / 100000))] :: float list"
  let ?df = "\<lparr>rows = [], box_high = [], box_low = [], signal = [],
      pct_change = [], strategy_return = ?sr\<rparr>"
  have dd: "drawdown_col ?sr = [None, Some 0, Some (- (1 / 100000))]"
    by (simp add: drawdown_col_def cumprod_def cummax_def Let_def)
  have nb: "\<not> never_below_peak ?sr"
    by (simp add: never_below_peak_def cumprod_def cummax_def Let_def)
  have tr: "trades_of (strategy_return ?df) \<noteq> []"
    by (simp add: trades_of_def)
  have mn: "series_min (drawdown_col ?sr) = Some (- (1 / 100000))"
    unfolding dd by (simp add: series_min_def finite_values_def)
  have rd: "py_round (fmul (Some (- (1 / 100000))) (Some 100)) 2 = Some 0"
    by (simp add: py_round_def round_half_even_def Let_def)
  have "map_of (calculate_metrics ?df) ''max_drawdown_pct'' = Some (PyFloat (Some 0))"
    using metrics_with_trades(5) [OF tr] mn rd by simp
  with dd nb show ?thesis by blast
qed

text \<open>
  Claim C6 as the code has it. For a return series with at least one trade, at least
  one finite return and every finite return above \<open>-1\<close> (the equity stays
  positive), \<open>max_drawdown_pct\<close> is a finite value \<open>\<le> 0\<close>, and it is 0 whenever the
  curve never falls below its running peak. The converse is what fails: a value of 0
  does not tell that the curve never fell.
\<close>

theorem C6_max_drawdown_rounded:
  assumes "trades_of (strategy_return df) \<noteq> []"
    "\<forall>r. Some r \<in> set (strategy_return df) \<longrightarrow> - 1 < r"
    "\<exists>r. Some r \<in> set (strategy_return df)"
  shows "\<exists>v. map_of (calculate_metrics df) ''max_drawdown_pct'' = Some (PyFloat (Some v)) \<and>
           v \<le> 0 \<and>
           (never_below_peak (strategy_return df) \<longrightarrow> v = 0)"
proof -
  let ?sr = "strategy_return df"
  from max_drawdown_value [OF assms(2,3)] obtain m where
    m: "series_min (drawdown_col ?sr) = Some m" "m \<le> 0"
       "\<forall>c. c \<le> m \<longleftrightarrow> (\<forall>d. Some d \<in> set (drawdown_col ?sr) \<longrightarrow> c \<le> d)"
    by blast
  from py_round_pct [OF m(2)] obtain v where
    v: "py_round (fmul (Some m) (Some 100)) 2 = Some v" "v \<le> 0" "m = 0 \<longrightarrow> v = 0"
    by blast
  have field: "map_of (calculate_metrics df) ''max_drawdown_pct'' = Some (PyFloat (Some v))"
    using metrics_with_trades(5) [OF assms(1)] m(1) v(1) by simp
  have flat: "v = 0" if "never_below_peak ?sr"
  proof -
    have "\<forall>d. Some d \<in> set (drawdown_col ?sr) \<longrightarrow> 0 \<le> d"
      using never_below_peak_drawdown [OF assms(2) that] by fastforce
    with m(3) have "0 \<le> m" by blast
    with m(2) have "m = 0" by simp
    with v(3) show ?thesis by simp
  qed
  from field v(2) flat show ?thesis by blast
qed

theorem C6_max_drawdown_rounded_witness:
  "never_below_peak [None, Some (1 / 100), Some 0, Some (1 / 100)] \<and>
   map_of (calculate_metrics \<lparr>rows = [], box_high = [], box_low = [], signal = [],
      pct_change = [], strategy_return = [None, Some (1 / 100), Some 0, Some (1 / 100)]\<rparr>)
     ''max_drawdown_pct'' = Some (PyFloat (Some 0)) \<and>
   (\<exists>v. map_of (calculate_metrics \<lparr>rows = [], box_high = [], box_low = [], signal = [],
        pct_change = [], strategy_return = [None, Some (1 / 100), Some (- (1 / 100))]\<rparr>)
       ''max_drawdown_pct'' = Some (PyFloat (Some v)) \<and> v \<le> 0)"
proof -
  let ?up = "[None, Some (1 / 100), Some 0, Some (1 / 100)] :: float list"
  let ?upFrame = "\<lparr>rows = [], box_high = [], box_low = [], signal = [],
      pct_change = [], strategy_return = ?up\<rparr>"
  let ?down = "[None, Some (1 / 100), Some (- (1 / 100))] :: float list"
  let ?downFrame = "\<lparr>rows = [], box_high = [], box_low = [], signal = [],
      pct_change = [], strategy_return = ?down\<rparr>"
  have u1: "trades_of (strategy_return ?upFrame) \<noteq> []" by (simp add: trades_of_def)
  have u2: "\<forall>r. Some r \<in> set (strategy_return ?upFrame) \<longrightarrow> - 1 < r" by auto
  have u3: "\<exists>r. Some r \<in> set (strategy_return ?upFrame)" by auto
  have nb: "never_below_peak ?up"
    by (simp add: never_below_peak_def cumprod_def cummax_def Let_def)
  from C6_max_drawdown_rounded [OF u1 u2 u3] nb
  have up: "map_of (calculate_metrics ?upFrame) ''max_drawdown_pct'' = Some (PyFloat (Some 0))"
    by auto
  have d1: "trades_of (strategy_return ?downFrame) \<noteq> []" by (simp add: trades_of_def)
  have d2: "\<forall>r. Some r \<in> set (strategy_return ?downFrame) \<longrightarrow> - 1 < r" by auto
  have d3: "\<exists>r. Some r \<in> set (strategy_return ?downFrame)" by auto
  from C6_max_drawdown_rounded [OF d1 d2 d3]
  have down: "\<exists>v. map_of (calculate_metrics ?downFrame) ''max_drawdown_pct'' =
      Some (PyFloat (Some v)) \<and> v \<le> 0"
    by blast
  from nb up down show ?thesis by blast
qed

text \<open>
  Claim C7. When no strategy return differs from zero, \<open>calculate_metrics\<close> returns
  exactly the dictionary with \<open>win_rate\<close>, \<open>total_trades\<close> and \<open>expectancy\<close>,
  all 0; the keys \<open>max_drawdown_pct\<close> and \<open>net_profit_pct\<close> are absent.
\<close>

theorem C7_no_trades:
  assumes "trades_of (strategy_return df_results) = []"
  shows "calculate_metrics df_results =
           [(''win_rate'', PyInt 0), (''total_trades'', PyInt 0), (''expectancy'', PyInt 0)] \<and>
         map_of (calculate_metrics df_results) ''max_drawdown_pct'' = None \<and>
         map_of (calculate_metrics df_results) ''net_profit_pct'' = None"
  using assms by (simp add: calculate_metrics_def)

theorem C7_no_trades_witness:
  "trades_of (strategy_return \<lparr>rows = [], box_high = [], box_low = [], signal = [],
      pct_change = [], strategy_return = [Some 0, Some 0]\<rparr>) = [] \<and>
   calculate_metrics \<lparr>rows = [], box_high = [], box_low = [], signal = [],
      pct_change = [], strategy_return = [Some 0, Some 0]\<rparr> =
     [(''win_rate'', PyInt 0), (''total_trades'', PyInt 0), (''expectancy'', PyInt 0)] \<and>
   map_of (calculate_metrics \<lparr>rows = [], box_high = [], box_low = [], signal = [],
      pct_change = [], strategy_return = [Some 0, Some 0]\<rparr>) ''max_drawdown_pct'' = None"
proof -
  let ?df = "\<lparr>rows = [], box_high = [], box_low = [], signal = [],
      pct_change = [], strategy_return = [Some 0, Some 0]\<rparr>"
  have h: "trades_of (strategy_return ?df) = []" by (simp add: trades_of_def)
  from C7_no_trades [OF h] h show ?thesis by blast
qed

text \<open>
  Claim C8. For a non-empty price series, windows that \<open>rolling\<close> accepts and three
  grid lists without repetitions, the sweep ends without an exception and
  \<open>results_log\<close> has exactly \<open>|windows| * |stop_losses| * |take_profits|\<close> rows:
  their parameter triples are the Cartesian product in enumeration order, no triple
  twice and none missing. The same holds for every reordering of \<open>results_log\<close>,
  which is what the final \<open>sort_values\<close> returns.
\<close>

theorem C8_full_cartesian_product:
  assumes "df \<noteq> []" "\<forall>w \<in> set ws. 0 \<le> w"
    "distinct ws" "distinct sls" "distinct tps"
  shows "\<exists>results_log. sweep df ws sls tps = Inr results_log \<and>
           length results_log = length ws * length sls * length tps \<and>
           map row_params results_log = combinations_of ws sls tps \<and>
           distinct (map row_params results_log) \<and>
           set (map row_params results_log) = set ws \<times> set sls \<times> set tps \<and>
           (\<forall>best_configs. mset best_configs = mset results_log \<longrightarrow>
              length best_configs = length ws * length sls * length tps \<and>
              distinct (map row_params best_configs) \<and>
              set (map row_params best_configs) = set ws \<times> set sls \<times> set tps)"
proof -
  let ?engine = "\<lparr>initial_capital = 10000, data = Some df\<rparr>"
  have "\<forall>c \<in> set (combinations_of ws sls tps).
          \<exists>row. grid_step ?engine c = Inr row \<and> row_params row = c"
  proof
    fix c assume "c \<in> set (combinations_of ws sls tps)"
    then have "0 \<le> fst c" using assms(2) by (auto simp: set_combinations_of)
    then show "\<exists>row. grid_step ?engine c = Inr row \<and> row_params row = c"
      using assms(1) by (intro grid_step_ok [where bs = df]) simp_all
  qed
  from grid_loop_ok [OF this, of "[]"]
  obtain new where new: "sweep df ws sls tps = Inr new"
    "map row_params new = combinations_of ws sls tps"
    by (auto simp: sweep_def)
  have "length new = length (map row_params new)" by simp
  also have "\<dots> = length ws * length sls * length tps"
    unfolding new(2) by (rule length_combinations_of)
  finally have len: "length new = length ws * length sls * length tps" .
  have dist: "distinct (map row_params new)"
    unfolding new(2) using assms(3-5) by (rule distinct_combinations_of)
  have st: "set (map row_params new) = set ws \<times> set sls \<times> set tps"
    unfolding new(2) by (rule set_combinations_of)
  have reorder: "length best_configs = length ws * length sls * length tps \<and>
      distinct (map row_params best_configs) \<and>
      set (map row_params best_configs) = set ws \<times> set sls \<times> set tps"
    if perm: "mset best_configs = mset new" for best_configs
  proof -
    have l: "length best_configs = length new"
      using perm by (rule mset_eq_length)
    have m: "mset (map row_params best_configs) = mset (map row_params new)"
      using perm by simp
    have d: "distinct (map row_params best_configs)"
      using mset_eq_imp_distinct_iff [OF m] dist by simp
    have s: "set (map row_params best_configs) = set (map row_params new)"
      using m by (rule mset_eq_setD)
    from l d s len st show ?thesis by simp
  qed
  from new len dist st reorder show ?thesis by blast
qed

theorem C8_full_cartesian_product_witness:
  "\<exists>results_log.
     main_results_log [\<lparr>bar_open = 100, high = 101, low = 99, close = 100\<rparr>] = Inr results_log \<and>
     length results_log = 36 \<and>
     map row_params results_log = combinations_of lookback_windows stop_losses take_profits \<and>
     distinct (map row_params results_log) \<and>
     set (map row_params results_log) =
       set lookback_windows \<times> set stop_losses \<times> set take_profits \<and>
     length (rev results_log) = 36 \<and>
     distinct (map row_params (rev results_log))"
proof -
  have h1: "[\<lparr>bar_open = 100, high = 101, low = 99, close = 100::real\<rparr>] \<noteq> []" by simp
  have h2: "\<forall>w \<in> set lookback_windows. 0 \<le> w" by (simp add: lookback_windows_def)
  have h3: "distinct lookback_windows" by (simp add: lookback_windows_def)
  have h4: "distinct stop_losses" by (simp add: stop_losses_def)
  have h5: "distinct take_profits" by (simp add: take_profits_def)
  have n: "length lookback_windows * length stop_losses * length take_profits = 36"
    by (simp add: lookback_windows_def stop_losses_def take_profits_def)
  from C8_full_cartesian_product [OF h1 h2 h3 h4 h5]
  obtain rl where rl:
    "sweep [\<lparr>bar_open = 100, high = 101, low = 99, close = 100\<rparr>]
       lookback_windows stop_losses take_profits = Inr rl"
    "length rl = length lookback_windows * length stop_losses * length take_profits"
    "map row_params rl = combinations_of lookback_windows stop_losses take_profits"
    "distinct (map row_params rl)"
    "set (map row_params rl) = set lookback_windows \<times> set stop_losses \<times> set take_profits"
    and reorder: "\<forall>best_configs. mset best_configs = mset rl \<longrightarrow>
       length best_configs = length lookback_windows * length stop_losses * length take_profits \<and>
       distinct (map row_params best_configs) \<and>
       set (map row_params best_configs) =
         set lookback_windows \<times> set stop_losses \<times> set take_profits"
    by blast
  have "mset (rev rl) = mset rl" by simp
  with reorder have rv: "length (rev rl) = 36" "distinct (map row_params (rev rl))"
    unfolding n by blast+
  have "main_results_log [\<lparr>bar_open = 100, high = 101, low = 99, close = 100\<rparr>] = Inr rl \<and>
     length rl = 36 \<and>
     map row_params rl = combinations_of lookback_windows stop_losses take_profits \<and>
     distinct (map row_params rl) \<and>
     set (map row_params rl) = set lookback_windows \<times> set stop_losses \<times> set take_profits \<and>
     length (rev rl) = 36 \<and> distinct (map row_params (rev rl))"
    using rl rv n unfolding main_results_log_def by simp
  then show ?thesis by (rule exI [of _ rl])
qed

text \<open>
  Claim C9. The two caps of lines 78-85 (stop-loss first, profit target second) are
  idempotent: capping a capped series again changes no element. This holds for every
  pair of cap values and for series that contain NaN.
\<close>

theorem C9_risk_caps_idempotent:
  "risk_caps config (risk_caps config xs) = risk_caps config xs"
proof -
  show ?thesis
    unfolding risk_caps_def stop_loss_cap_def profit_target_cap_def
    by (simp add: comp_def)
qed

text \<open>
  Claim C10. For every non-empty loaded series and every configuration that
  \<open>rolling\<close> accepts, \<open>run_strategy\<close> returns a frame whose strategy return at bar 0
  is NaN; NaN passes the filter \<open>!= 0\<close>, so it is among the trades, it is not a winning
  trade, \<open>total_trades\<close> is at least 1 and the zero-trades dictionary is never
  returned.
\<close>

theorem C10_bar0_counts_as_trade:
  assumes "data self = Some bs" "bs \<noteq> []" "0 \<le> lookback_window config"
  shows "\<exists>df n. run_strategy self config = Inr df \<and>
           strategy_return df ! 0 = None \<and>
           None \<in> set (trades_of (strategy_return df)) \<and>
           \<not> flt_gt (strategy_return df ! 0) (Some 0) \<and>
           map_of (calculate_metrics df) ''total_trades'' = Some (PyInt n) \<and> 1 \<le> n \<and>
           calculate_metrics df \<noteq>
             [(''win_rate'', PyInt 0), (''total_trades'', PyInt 0), (''expectancy'', PyInt 0)]"
proof -
  from assms(1,3) obtain df where run: "run_strategy self config = Inr df" and rows: "rows df = bs"
    using run_strategy_returns by blast
  have b0: "length (strategy_return df) = length bs" "strategy_return df ! 0 = None"
    using strategy_return_bar0 [OF run] assms(2) rows by auto
  have "strategy_return df ! 0 \<in> set (strategy_return df)"
    using b0(1) assms(2) by (intro nth_mem) simp
  then have mem: "None \<in> set (trades_of (strategy_return df))"
    using b0(2) by (simp add: NaN_is_a_trade)
  then have ne: "trades_of (strategy_return df) \<noteq> []" by auto
  then have len: "1 \<le> int (length (trades_of (strategy_return df)))"
    by (cases "trades_of (strategy_return df)") auto
  have tt: "map_of (calculate_metrics df) ''total_trades'' =
      Some (PyInt (int (length (trades_of (strategy_return df)))))"
    using ne by (rule metrics_with_trades(1))
  have "calculate_metrics df \<noteq>
      [(''win_rate'', PyInt 0), (''total_trades'', PyInt 0), (''expectancy'', PyInt 0)]"
  proof
    assume "calculate_metrics df =
      [(''win_rate'', PyInt 0), (''total_trades'', PyInt 0), (''expectancy'', PyInt 0)]"
    then have "map_of (calculate_metrics df) ''total_trades'' = Some (PyInt 0)" by simp
    with tt len show False by simp
  qed
  with run b0(2) mem tt len show ?thesis by auto
qed

theorem C10_bar0_counts_as_trade_witness:
  "\<exists>df n. run_strategy
       \<lparr>initial_capital = 10000,
        data = Some [\<lparr>bar_open = 100, high = 101, low = 99, close = 100\<rparr>]\<rparr>
       \<lparr>lookback_window = 1, profit_target_pct = 1 / 100, stop_loss_pct = 1 / 100,
        fee_per_trade = 2 / 10000\<rparr> = Inr df \<and>
     strategy_return df ! 0 = None \<and>
     map_of (calculate_metrics df) ''total_trades'' = Some (PyInt n) \<and> 1 \<le> n"
proof -
  let ?bs = "[\<lparr>bar_open = 100, high = 101, low = 99, close = 100::real\<rparr>]"
  let ?e = "\<lparr>initial_capital = 10000, data = Some ?bs\<rparr>"
  let ?c = "\<lparr>lookback_window = 1, profit_target_pct = 1 / 100, stop_loss_pct = 1 / 100,
        fee_per_trade = 2 / 10000::real\<rparr>"
  have h1: "data ?e = Some ?bs" by simp
  have h2: "?bs \<noteq> []" by simp
  have h3: "0 \<le> lookback_window ?c" by simp
  from C10_bar0_counts_as_trade [OF h1 h2 h3] show ?thesis by blast
qed

end
